theory Spec2Isabelle
  imports Main
begin

section \<open>The paginated reels client: data model\<close>

text \<open>
  The component \<^verbatim>\<open>ReelsClient\<close> with cursor pagination and likes keeps its data in
  React state cells. A \<^verbatim>\<open>Reel\<close> has an identifier and the optional viewer-relative
  fields \<^verbatim>\<open>likesCount?: number\<close>, \<^verbatim>\<open>commentsCount?: number\<close> and
  \<^verbatim>\<open>viewerHasLiked?: boolean\<close>; an absent (or null) field is \<open>None\<close>. A count is a
  JavaScript number holding an integer; its arithmetic is that of doubles, written out
  below. The fields \<^verbatim>\<open>media\<close> and \<^verbatim>\<open>author\<close> are only rendered, never
  computed with, and are left out; the object spread \<^verbatim>\<open>{...r, ...}\<close> of the source
  is the record update, which keeps every field it does not name.
\<close>

record reel =
  id_reel :: string
  createdAt :: "string option"
  caption :: "string option"
  likesCount :: "int option"
  commentsCount :: "int option"
  viewerHasLiked :: "bool option"

text \<open>What the component asks of the network and of the router, in the order asked.\<close>

datatype request =
  GetReels "string option"  \<comment> \<open>\<^verbatim>\<open>GET /reels?cursor=...\<close>, the cursor parameter if set\<close>
| PostLike string           \<comment> \<open>\<^verbatim>\<open>POST /reels/<id>/like\<close>\<close>

text \<open>
  The state cells of the component (\<^verbatim>\<open>useState\<close>), together with the two logs of its
  effects on the outside: the requests handed to \<^verbatim>\<open>apiFetch\<close> and the paths handed
  to \<^verbatim>\<open>router.push\<close>.
\<close>

record client =
  items :: "reel list"
  loading :: bool
  cursor :: "string option"
  hasMore :: bool
  err :: "string option"
  activeIndex :: nat
  requests :: "request list"
  pushed :: "string list"

text \<open>The session collaborator \<^verbatim>\<open>useMe\<close>: \<^verbatim>\<open>authed = Boolean(me?.user?.id)\<close>.\<close>

record session =
  authed :: bool
  meLoading :: bool

section \<open>The like toggle\<close>

text \<open>JavaScript truthiness of an optional boolean and of an optional string.\<close>

definition truthy_bool :: "bool option \<Rightarrow> bool" where
  "truthy_bool b = (case b of None \<Rightarrow> False | Some v \<Rightarrow> v)"

definition truthy_string :: "string option \<Rightarrow> bool" where
  "truthy_string s = (case s of None \<Rightarrow> False | Some v \<Rightarrow> v \<noteq> [])"

text \<open>\<^verbatim>\<open>r.likesCount ?? 0\<close>, the count as read by the toggle and as rendered.\<close>

definition shownLikes :: "reel \<Rightarrow> int" where
  "shownLikes r = (case likesCount r of None \<Rightarrow> 0 | Some n \<Rightarrow> n)"

text \<open>
  The \<^verbatim>\<open>+\<close> of JavaScript on counts. A number is an IEEE double, and the sum of two
  doubles is their exact sum rounded to the nearest double, a tie going to the even
  mantissa. Every integer of magnitude up to \<open>2^53 = 9007199254740992\<close> is a double and
  is its own rounding; beyond, a double keeps 53 significant bits, so the doubles between
  \<open>2^(l-1)\<close> and \<open>2^l\<close> are the multiples of \<open>2^(l-53)\<close>. (No sum of a count and
  \<open>1\<close> or \<open>-1\<close> reaches the end of the doubles' range.)
\<close>

function bit_length :: "int \<Rightarrow> nat" where
  "bit_length n = (if n \<le> 0 then 0 else Suc (bit_length (n div 2)))"
  by pat_completeness auto
termination
  by (relation "measure nat") auto

declare bit_length.simps [simp del]

definition dbl_round :: "int \<Rightarrow> int" where
  "dbl_round n =
     (let a = \<bar>n\<bar>
      in if a \<le> 9007199254740992 then n
         else
           (let u = 2 ^ (bit_length a - 53);
                q = a div u;
                r = a mod u;
                m = (if 2 * r < u \<or> (2 * r = u \<and> even q) then q else q + 1)
            in sgn n * (m * u)))"

definition js_add :: "int \<Rightarrow> int \<Rightarrow> int" where
  "js_add x y = dbl_round (x + y)"

text \<open>
  The object literal that \<^verbatim>\<open>onLike\<close> writes three times (optimistic apply, revert on
  a response that is not ok, revert on a thrown error):
  \<^verbatim>\<open>{...r, viewerHasLiked: !r.viewerHasLiked,
     likesCount: Math.max(0, (r.likesCount ?? 0) + (r.viewerHasLiked ? -1 : 1))}\<close>
\<close>

definition toggleLike :: "reel \<Rightarrow> reel" where
  "toggleLike r =
     r\<lparr>viewerHasLiked := Some (\<not> truthy_bool (viewerHasLiked r)),
       likesCount :=
         Some (max 0 (js_add (shownLikes r) (if truthy_bool (viewerHasLiked r) then - 1 else 1)))\<rparr>"

text \<open>\<^verbatim>\<open>prev.map((r) => r.id === reelId ? {...} : r)\<close>\<close>

definition toggleItems :: "string \<Rightarrow> reel list \<Rightarrow> reel list" where
  "toggleItems reelId prev = map (\<lambda>r. if id_reel r = reelId then toggleLike r else r) prev"

text \<open>
  \<^verbatim>\<open>requireAuth\<close> returns whether it redirected; the redirect is recorded in
  \<open>pushed\<close>.
\<close>

definition requireAuth :: "session \<Rightarrow> client \<Rightarrow> bool \<times> client" where
  "requireAuth me c =
     (if \<not> authed me \<and> \<not> meLoading me
      then (True, c\<lparr>pushed := pushed c @ [''/login?next=/reels'']\<rparr>)
      else (False, c))"

text \<open>
  \<^verbatim>\<open>onLike\<close> up to its \<^verbatim>\<open>await\<close>: the authentication gate, the optimistic update
  and the request.
\<close>

definition onLike_start :: "session \<Rightarrow> string \<Rightarrow> client \<Rightarrow> client" where
  "onLike_start me reelId c =
     (case requireAuth me c of
        (True, c') \<Rightarrow> c'
      | (False, c') \<Rightarrow>
          c'\<lparr>items := toggleItems reelId (items c'),
             requests := requests c' @ [PostLike reelId]\<rparr>)"

text \<open>How the like request ends: a response that is ok, one that is not, or an exception.\<close>

datatype like_response = LikeOk | LikeNotOk | LikeThrew

text \<open>\<^verbatim>\<open>onLike\<close> after its \<^verbatim>\<open>await\<close>, run on the state of that later moment.\<close>

definition onLike_resolve :: "string \<Rightarrow> like_response \<Rightarrow> client \<Rightarrow> client" where
  "onLike_resolve reelId res c =
     (case res of
        LikeOk \<Rightarrow> c
      | LikeNotOk \<Rightarrow> c\<lparr>items := toggleItems reelId (items c)\<rparr>
      | LikeThrew \<Rightarrow> c\<lparr>items := toggleItems reelId (items c)\<rparr>)"

text \<open>
  A run of like events on the component: clicks (with the session as it is at the click)
  and resolutions of earlier requests, in any order.
\<close>

datatype like_event = Click session string | Resolved string like_response

fun like_step :: "like_event \<Rightarrow> client \<Rightarrow> client" where
  "like_step (Click me reelId) c = onLike_start me reelId c"
| "like_step (Resolved reelId res) c = onLike_resolve reelId res c"

fun like_run :: "like_event list \<Rightarrow> client \<Rightarrow> client" where
  "like_run [] c = c"
| "like_run (e # es) c = like_run es (like_step e c)"

section \<open>Loading pages\<close>

text \<open>
  The JSON body of a page: \<^verbatim>\<open>data?.items\<close>, \<^verbatim>\<open>data?.reels\<close>,
  \<^verbatim>\<open>data?.nextCursor\<close>, \<^verbatim>\<open>data?.hasMore\<close>, each absent or null (\<open>None\<close>) or
  present. A null body is the payload with every field absent.
\<close>

record payload =
  items_data :: "reel list option"
  reels_data :: "reel list option"
  nextCursor_data :: "string option"
  hasMore_data :: "bool option"

text \<open>
  How \<^verbatim>\<open>apiFetch\<close> and the reading of its response end: an exception with or without
  a message (thrown by \<^verbatim>\<open>apiFetch\<close>, \<^verbatim>\<open>res.text()\<close> or \<^verbatim>\<open>res.json()\<close>), a
  response that is not ok with its status and body text, or an ok response with its
  body.
\<close>

datatype response = Threw "string option" | NotOk nat string | Ok payload

text \<open>The template literal \<^verbatim>\<open>`HTTP ${res.status}`\<close> prints the status in decimal.\<close>

definition digit_char :: "nat \<Rightarrow> char" where
  "digit_char d = ''0123456789'' ! d"

function show_nat :: "nat \<Rightarrow> string" where
  "show_nat n = (if n < 10 then [digit_char n] else show_nat (n div 10) @ [digit_char (n mod 10)])"
  by pat_completeness auto
termination
  by (relation "measure (\<lambda>n. n)") auto

text \<open>
  \<^verbatim>\<open>data?.items ?? data?.reels ?? []\<close>,
  \<^verbatim>\<open>Boolean(data?.hasMore ?? nextCursor)\<close>
\<close>

definition nextItems :: "payload \<Rightarrow> reel list" where
  "nextItems d =
     (case items_data d of
        Some xs \<Rightarrow> xs
      | None \<Rightarrow> (case reels_data d of Some ys \<Rightarrow> ys | None \<Rightarrow> []))"

definition nextHasMore :: "payload \<Rightarrow> bool" where
  "nextHasMore d =
     (case hasMore_data d of
        Some b \<Rightarrow> b
      | None \<Rightarrow> truthy_string (nextCursor_data d))"

text \<open>
  \<^verbatim>\<open>loadMore(initial)\<close> up to its first \<^verbatim>\<open>await\<close>: the error is cleared, the
  loading flag is raised on an initial load only, and the request goes out with the cursor
  when the load is not initial and the cursor is truthy. The function tests neither
  \<open>loading\<close> nor \<open>hasMore\<close>.
\<close>

definition loadMore_start :: "bool \<Rightarrow> client \<Rightarrow> client" where
  "loadMore_start initial c =
     (let c1 = c\<lparr>err := None\<rparr>;
          c2 = (if initial then c1\<lparr>loading := True\<rparr> else c1);
          qs = (if \<not> initial \<and> truthy_string (cursor c) then cursor c else None)
      in c2\<lparr>requests := requests c2 @ [GetReels qs]\<rparr>)"

text \<open>
  \<^verbatim>\<open>loadMore(initial)\<close> from the response on, run on the state of that later moment
  (\<^verbatim>\<open>setItems\<close> takes an updater of the previous items): the \<^verbatim>\<open>try\<close> body on an
  ok response, the \<^verbatim>\<open>catch\<close> otherwise, the \<^verbatim>\<open>finally\<close> in every case.
\<close>

definition loadMore_resolve :: "bool \<Rightarrow> response \<Rightarrow> client \<Rightarrow> client" where
  "loadMore_resolve initial res c =
     (case res of
        Ok d \<Rightarrow>
          c\<lparr>items := (if initial then nextItems d else items c @ nextItems d),
            cursor := nextCursor_data d,
            hasMore := (nextHasMore d \<and> length (nextItems d) > 0),
            loading := False\<rparr>
      | NotOk status t \<Rightarrow>
          c\<lparr>err := Some (if t \<noteq> [] then t else ''HTTP '' @ show_nat status),
            hasMore := False,
            loading := False\<rparr>
      | Threw m \<Rightarrow>
          c\<lparr>err := Some (case m of Some s \<Rightarrow> s | None \<Rightarrow> ''Error cargando reels''),
            hasMore := False,
            loading := False\<rparr>)"

section \<open>The scroll handler\<close>

text \<open>
  The \<^verbatim>\<open>forEach\<close> of \<^verbatim>\<open>onScroll\<close> over the rendered children, given by their
  \<^verbatim>\<open>offsetTop\<close>: \<open>idx\<close> is the index of the head of the remaining list, \<open>bestDist\<close>
  is \<open>None\<close> for \<^verbatim>\<open>Infinity\<close>.
\<close>

definition lessDist :: "int \<Rightarrow> int option \<Rightarrow> bool" where
  "lessDist dist bestDist = (case bestDist of None \<Rightarrow> True | Some b \<Rightarrow> dist < b)"

fun scan :: "int \<Rightarrow> int list \<Rightarrow> nat \<Rightarrow> nat \<Rightarrow> int option \<Rightarrow> nat" where
  "scan scrollTop [] idx bestIdx bestDist = bestIdx"
| "scan scrollTop (offsetTop # rest) idx bestIdx bestDist =
     (let dist = \<bar>offsetTop - scrollTop\<bar>
      in if lessDist dist bestDist
         then scan scrollTop rest (Suc idx) idx (Some dist)
         else scan scrollTop rest (Suc idx) bestIdx bestDist)"

text \<open>
  \<^verbatim>\<open>onScroll\<close> on the children's offsets and the container's \<^verbatim>\<open>scrollTop\<close>: nothing
  happens without children; otherwise the active index is set and, near the end, a
  further page is asked for when \<open>hasMore\<close> holds and \<open>loading\<close> does not.
\<close>

definition onScroll :: "int list \<Rightarrow> int \<Rightarrow> client \<Rightarrow> client" where
  "onScroll children scrollTop c =
     (if children = [] then c
      else
        (let bestIdx = scan scrollTop children 0 0 None;
             c1 = c\<lparr>activeIndex := bestIdx\<rparr>
         in if hasMore c \<and> \<not> loading c \<and> int bestIdx \<ge> int (length children) - 2
            then loadMore_start False c1
            else c1))"

text \<open>A run of scroll events, each with the offsets and the scroll position of its moment.\<close>

fun scroll_run :: "(int list \<times> int) list \<Rightarrow> client \<Rightarrow> client" where
  "scroll_run [] c = c"
| "scroll_run ((children, scrollTop) # es) c = scroll_run es (onScroll children scrollTop c)"

section \<open>The sibling components\<close>

text \<open>
  \<^verbatim>\<open>FeedClient\<close>, \<^verbatim>\<open>NotificationsPage\<close> and the \<^verbatim>\<open>ReelsClient\<close> without
  pagination load one list in an effect whose closure holds a liveness variable
  (\<^verbatim>\<open>mounted\<close>, \<^verbatim>\<open>alive\<close>), set to true by the effect and to false by its cleanup.
  The state is the list, the loading flag, the error and that variable; the item type is
  a parameter. (\<^verbatim>\<open>NotificationsPage\<close> starts its load only for an authenticated
  viewer; the continuation after the \<^verbatim>\<open>await\<close> is the same.)
\<close>

record 'a loader =
  loaded :: "'a list"
  busy :: bool
  failure :: "string option"
  mounted :: bool

text \<open>
  The end of the fetch: an exception with its message if any, or the decoded list
  (\<^verbatim>\<open>data.items || data.posts || data.data || []\<close> in \<^verbatim>\<open>FeedClient\<close>,
  \<^verbatim>\<open>Array.isArray(data.items) ? data.items : []\<close> in \<^verbatim>\<open>ReelsClient\<close>,
  \<^verbatim>\<open>Array.isArray(r) ? r : []\<close> in \<^verbatim>\<open>NotificationsPage\<close>).
\<close>

datatype 'a fetched = Failed "string option" | Got "'a list"

text \<open>\<^verbatim>\<open>e?.message || fallback\<close>: an absent or empty message gives the fallback.\<close>

definition message_or :: "string option \<Rightarrow> string \<Rightarrow> string" where
  "message_or m fallback = (case m of None \<Rightarrow> fallback | Some s \<Rightarrow> if s \<noteq> [] then s else fallback)"

text \<open>The effect up to its \<^verbatim>\<open>await\<close>, its continuation, and its cleanup.\<close>

definition load_start :: "'a loader \<Rightarrow> 'a loader" where
  "load_start s = s\<lparr>mounted := True, busy := True, failure := None\<rparr>"

definition load_resolve :: "string \<Rightarrow> 'a fetched \<Rightarrow> 'a loader \<Rightarrow> 'a loader" where
  "load_resolve fallback res s =
     (if \<not> mounted s then s
      else (case res of
              Got xs \<Rightarrow> s\<lparr>loaded := xs, busy := False\<rparr>
            | Failed m \<Rightarrow> s\<lparr>failure := Some (message_or m fallback), busy := False\<rparr>))"

definition cleanup :: "'a loader \<Rightarrow> 'a loader" where
  "cleanup s = s\<lparr>mounted := False\<rparr>"

section \<open>The view and the events of the paginated client\<close>

text \<open>
  What the component returns: the loading text while \<^verbatim>\<open>loading && items.length === 0\<close>;
  the error with its retry button while \<^verbatim>\<open>err && items.length === 0\<close>; otherwise the
  list of reels, followed by the loading footer while \<open>loading\<close> and by the end-of-list
  footer while \<^verbatim>\<open>!hasMore && items.length > 0\<close>. The error is rendered nowhere else.
\<close>

datatype view =
  LoadingView
| ErrorView string
| FeedView "reel list" bool bool  \<comment> \<open>the reels, the loading footer, the end-of-list footer\<close>

definition render :: "client \<Rightarrow> view" where
  "render c =
     (if loading c \<and> items c = [] then LoadingView
      else if truthy_string (err c) \<and> items c = []
        then ErrorView (case err c of Some m \<Rightarrow> m | None \<Rightarrow> [])
      else FeedView (items c) (loading c) (\<not> hasMore c \<and> items c \<noteq> []))"

text \<open>
  What happens to the component after its mount: a scroll event, the end of a load
  (initial or not) with its response, a like event, a click on the retry button
  (\<^verbatim>\<open>loadMore(true)\<close>). Loads are not told apart by the request they answer: the flag
  \<open>loading\<close> is raised by an initial load only, so loads that are not initial can overlap.
\<close>

datatype event =
  Scroll "int list" int
| Loaded bool response
| Like like_event
| Retry

fun step :: "event \<Rightarrow> client \<Rightarrow> client" where
  "step (Scroll children scrollTop) c = onScroll children scrollTop c"
| "step (Loaded initial res) c = loadMore_resolve initial res c"
| "step (Like e) c = like_step e c"
| "step Retry c = loadMore_start True c"

fun run :: "event list \<Rightarrow> client \<Rightarrow> client" where
  "run [] c = c"
| "run (e # es) c = run es (step e c)"

text \<open>
  The events that can raise \<open>hasMore\<close> or ask for a page by themselves: a load that ends
  on a page with items, and the retry.
\<close>

fun restarts :: "event \<Rightarrow> bool" where
  "restarts (Loaded initial (Ok d)) = (nextItems d \<noteq> [])"
| "restarts Retry = True"
| "restarts e = False"

fun is_GetReels :: "request \<Rightarrow> bool" where
  "is_GetReels (GetReels qs) = True"
| "is_GetReels (PostLike reelId) = False"

section \<open>Sample values\<close>

text \<open>A reel \<^verbatim>\<open>x\<close>, a client state and a page, written out for the concrete evaluations.\<close>

abbreviation reel_x :: "bool option \<Rightarrow> int option \<Rightarrow> reel" where
  "reel_x liked n \<equiv>
     \<lparr>id_reel = ''x'', createdAt = None, caption = None, likesCount = n,
      commentsCount = None, viewerHasLiked = liked\<rparr>"

abbreviation reel_named :: "string \<Rightarrow> reel" where
  "reel_named i \<equiv>
     \<lparr>id_reel = i, createdAt = None, caption = None, likesCount = None,
      commentsCount = None, viewerHasLiked = None\<rparr>"

abbreviation client_of :: "reel list \<Rightarrow> bool \<Rightarrow> bool \<Rightarrow> client" where
  "client_of xs ld hm \<equiv>
     \<lparr>items = xs, loading = ld, cursor = None, hasMore = hm, err = None,
      activeIndex = 0, requests = [], pushed = []\<rparr>"

text \<open>
  The component at its mount: the initial values of the state cells, and the effect that
  calls \<^verbatim>\<open>loadMore(true)\<close>.
\<close>

abbreviation client_mounted :: client where
  "client_mounted \<equiv>
     loadMore_start True
       \<lparr>items = [], loading = True, cursor = None, hasMore = True, err = None,
        activeIndex = 0, requests = [], pushed = []\<rparr>"

abbreviation page_of :: "reel list option \<Rightarrow> string option \<Rightarrow> bool option \<Rightarrow> payload" where
  "page_of xs cur flag \<equiv>
     \<lparr>items_data = xs, reels_data = None, nextCursor_data = cur, hasMore_data = flag\<rparr>"

text \<open>The component once its initial load has ended on the page \<open>d\<close>.\<close>

abbreviation client_loaded :: "payload \<Rightarrow> client" where
  "client_loaded d \<equiv> loadMore_resolve True (Ok d) client_mounted"

abbreviation me_of :: "bool \<Rightarrow> bool \<Rightarrow> session" where
  "me_of a l \<equiv> \<lparr>authed = a, meLoading = l\<rparr>"

section \<open>Facts about the like toggle\<close>

text \<open>Up to \<open>2^53\<close> in magnitude the sum of two counts is exact.\<close>

lemma dbl_round_exact: "\<bar>n\<bar> \<le> 9007199254740992 \<Longrightarrow> dbl_round n = n"
  by (simp add: dbl_round_def)

lemma shownLikes_toggleLike:
  "shownLikes (toggleLike r) =
     max 0 (js_add (shownLikes r) (if truthy_bool (viewerHasLiked r) then - 1 else 1))"
  by (simp add: shownLikes_def toggleLike_def)

lemma shownLikes_toggleLike_nonneg: "0 \<le> shownLikes (toggleLike r)"
  by (simp add: shownLikes_toggleLike)

lemma toggleItems_nonneg:
  assumes "\<forall>r \<in> set xs. 0 \<le> shownLikes r"
  shows "\<forall>r \<in> set (toggleItems reelId xs). 0 \<le> shownLikes r"
  using assms by (auto simp: toggleItems_def shownLikes_toggleLike_nonneg)

text \<open>Either phase of \<^verbatim>\<open>onLike\<close> leaves the items alone or toggles the reel once.\<close>

lemma items_onLike_start:
  "items (onLike_start me reelId c) = items c \<or>
   items (onLike_start me reelId c) = toggleItems reelId (items c)"
  by (simp add: onLike_start_def requireAuth_def)

lemma items_onLike_resolve:
  "items (onLike_resolve reelId res c) = items c \<or>
   items (onLike_resolve reelId res c) = toggleItems reelId (items c)"
  by (cases res) (simp_all add: onLike_resolve_def)

lemma like_step_nonneg:
  assumes "\<forall>r \<in> set (items c). 0 \<le> shownLikes r"
  shows "\<forall>r \<in> set (items (like_step e c)). 0 \<le> shownLikes r"
proof (cases e)
  case (Click me reelId)
  then show ?thesis
    using assms items_onLike_start [of me reelId c] toggleItems_nonneg [OF assms, of reelId]
    by auto
next
  case (Resolved reelId res)
  then show ?thesis
    using assms items_onLike_resolve [of reelId res c] toggleItems_nonneg [OF assms, of reelId]
    by auto
qed

lemma like_run_nonneg:
  "\<forall>r \<in> set (items c). 0 \<le> shownLikes r \<Longrightarrow>
   \<forall>r \<in> set (items (like_run es c)). 0 \<le> shownLikes r"
proof (induction es arbitrary: c)
  case Nil
  then show ?case by simp
next
  case (Cons e es)
  from Cons.prems have "\<forall>r \<in> set (items (like_step e c)). 0 \<le> shownLikes r"
    by (rule like_step_nonneg)
  then show ?case
    using Cons.IH by simp
qed

section \<open>Facts about the scroll handler\<close>

text \<open>
  While \<open>loading\<close> holds or \<open>hasMore\<close> does not, a scroll event changes the active index
  at most, and so does any run of them.
\<close>

lemma onScroll_guarded:
  "loading c \<or> \<not> hasMore c \<Longrightarrow>
     onScroll children t c =
       (if children = [] then c else c\<lparr>activeIndex := scan t children 0 0 None\<rparr>)"
  by (auto simp: onScroll_def Let_def)

lemma scroll_run_guarded:
  "loading c \<or> \<not> hasMore c \<Longrightarrow> \<exists>i. scroll_run es c = c\<lparr>activeIndex := i\<rparr>"
proof (induction es arbitrary: c)
  case Nil
  have "scroll_run [] c = c\<lparr>activeIndex := activeIndex c\<rparr>" by simp
  then show ?case by blast
next
  case (Cons e es)
  obtain children t where e: "e = (children, t)" by (cases e)
  have "\<exists>i. onScroll children t c = c\<lparr>activeIndex := i\<rparr>"
  proof (cases "children = []")
    case True
    then have "onScroll children t c = c\<lparr>activeIndex := activeIndex c\<rparr>"
      by (simp add: onScroll_def)
    then show ?thesis by blast
  next
    case False
    then show ?thesis
      using onScroll_guarded [OF Cons.prems, of children t] by auto
  qed
  then obtain i where i: "onScroll children t c = c\<lparr>activeIndex := i\<rparr>"
    by blast
  have "loading (c\<lparr>activeIndex := i\<rparr>) \<or> \<not> hasMore (c\<lparr>activeIndex := i\<rparr>)"
    using Cons.prems by simp
  from Cons.IH [OF this] obtain k
    where "scroll_run es (c\<lparr>activeIndex := i\<rparr>) = c\<lparr>activeIndex := i, activeIndex := k\<rparr>"
    by blast
  then have "scroll_run (e # es) c = c\<lparr>activeIndex := k\<rparr>"
    using e i by simp
  then show ?case by blast
qed





section \<open>Facts about the sibling loaders\<close>

text \<open>After the cleanup of the effect, the continuation of the fetch changes nothing.\<close>

lemma load_resolve_after_cleanup: "load_resolve fallback res (cleanup s) = cleanup s"
  by (simp add: load_resolve_def cleanup_def)

section \<open>Facts about runs of events\<close>

text \<open>
  While \<open>hasMore\<close> is false, an event that is neither a load ending on a page with items
  nor a retry leaves it false and asks for no page.
\<close>

lemma step_quiet:
  assumes "\<not> hasMore c" and "\<not> restarts e"
  shows "\<not> hasMore (step e c) \<and>
         filter is_GetReels (requests (step e c)) = filter is_GetReels (requests c)"
proof (cases e)
  case (Scroll children t)
  from assms(1) have "onScroll children t c =
      (if children = [] then c else c\<lparr>activeIndex := scan t children 0 0 None\<rparr>)"
    by (simp add: onScroll_guarded)
  with Scroll assms(1) show ?thesis by simp
next
  case (Loaded initial res)
  show ?thesis
  proof (cases res)
    case (Ok d)
    with Loaded assms(2) have "nextItems d = []" by simp
    with Loaded Ok show ?thesis by (simp add: loadMore_resolve_def)
  next
    case (NotOk status t)
    with Loaded show ?thesis by (simp add: loadMore_resolve_def)
  next
    case (Threw m)
    with Loaded show ?thesis by (simp add: loadMore_resolve_def)
  qed
next
  case (Like le)
  show ?thesis
  proof (cases le)
    case (Click me reelId)
    with Like assms(1) show ?thesis
      by (simp add: onLike_start_def requireAuth_def)
  next
    case (Resolved reelId res)
    with Like assms(1) show ?thesis
      by (cases res) (simp_all add: onLike_resolve_def)
  qed
next
  case Retry
  with assms(2) show ?thesis by simp
qed

lemma run_quiet:
  "\<not> hasMore c \<Longrightarrow> list_all (\<lambda>e. \<not> restarts e) es \<Longrightarrow>
   \<not> hasMore (run es c) \<and>
   filter is_GetReels (requests (run es c)) = filter is_GetReels (requests c)"
proof (induction es arbitrary: c)
  case Nil
  then show ?case by simp
next
  case (Cons e es)
  from Cons.prems have q: "\<not> restarts e" and qs: "list_all (\<lambda>e. \<not> restarts e) es"
    by simp_all
  from step_quiet [OF Cons.prems(1) q]
  have h: "\<not> hasMore (step e c)"
    and r: "filter is_GetReels (requests (step e c)) = filter is_GetReels (requests c)"
    by simp_all
  from Cons.IH [OF h qs] r show ?case by simp
qed

section \<open>The claims\<close>

subsection \<open>Likes\<close>

text \<open>
  C1. Rollback of a like whose request fails. The viewer is authenticated, reel \<^verbatim>\<open>x\<close>
  is liked with a count of zero; the optimistic update makes it unliked with count zero (the
  decrement is clamped), and the revert after a response that is not ok makes it liked with
  count one: the count before the click is not restored.
\<close>

theorem onLike_rollback_at_clamp:
  "items (onLike_start (me_of True False) ''x'' (client_of [reel_x (Some True) (Some 0)] False False))
     = [reel_x (Some False) (Some 0)] \<and>
   items (onLike_resolve ''x'' LikeNotOk
            (onLike_start (me_of True False) ''x'' (client_of [reel_x (Some True) (Some 0)] False False)))
     = [reel_x (Some True) (Some 1)]"
  by (simp add: onLike_start_def onLike_resolve_def requireAuth_def toggleItems_def toggleLike_def
        shownLikes_def truthy_bool_def js_add_def dbl_round_def)

text \<open>
  C2. Toggling twice. For a reel whose count is an integer below \<open>2^53\<close> and agrees with
  its flag (at least one like when the viewer has liked it, no negative count otherwise;
  an absent count reads as zero and an absent flag as not liked), two toggles in succession
  give the reel back, with the count and the flag it showed, now both present.
\<close>

theorem toggleLike_twice:
  assumes "if truthy_bool (viewerHasLiked r) then 1 \<le> shownLikes r else 0 \<le> shownLikes r"
    and "shownLikes r < 9007199254740992"
  shows "toggleLike (toggleLike r) =
           r\<lparr>viewerHasLiked := Some (truthy_bool (viewerHasLiked r)),
             likesCount := Some (shownLikes r)\<rparr>"
proof (cases "truthy_bool (viewerHasLiked r)")
  case True
  with assms have "js_add (shownLikes r) (- 1) = shownLikes r - 1"
    by (simp add: js_add_def dbl_round_exact)
  moreover from True assms have "js_add (shownLikes r - 1) 1 = shownLikes r"
    by (simp add: js_add_def dbl_round_exact)
  ultimately show ?thesis
    using True assms by (simp add: toggleLike_def shownLikes_def truthy_bool_def)
next
  case False
  with assms have "js_add (shownLikes r) 1 = shownLikes r + 1"
    by (simp add: js_add_def dbl_round_exact)
  moreover from False assms have "js_add (shownLikes r + 1) (- 1) = shownLikes r"
    by (simp add: js_add_def dbl_round_exact)
  ultimately show ?thesis
    using False assms by (simp add: toggleLike_def shownLikes_def truthy_bool_def)
qed

theorem toggleLike_twice_witness:
  "(if truthy_bool (viewerHasLiked (reel_x None (Some 5))) then 1 \<le> shownLikes (reel_x None (Some 5))
    else 0 \<le> shownLikes (reel_x None (Some 5))) \<and>
   shownLikes (reel_x None (Some 5)) < 9007199254740992 \<and>
   toggleLike (toggleLike (reel_x None (Some 5))) = reel_x (Some False) (Some 5)"
  using toggleLike_twice [of "reel_x None (Some 5)"]
  by (simp add: shownLikes_def truthy_bool_def)

text \<open>
  The claim as stated, for every reel, fails where the clamp acts: a liked reel with count
  zero comes back from two toggles with count one. It fails as well where the addition
  rounds: a reel not liked with count \<open>2^53\<close> keeps that count under the increment and
  comes back with \<open>2^53 - 1\<close>.
\<close>

theorem toggleLike_twice_counterexample:
  "toggleLike (toggleLike (reel_x (Some True) (Some 0))) = reel_x (Some True) (Some 1) \<and>
   toggleLike (toggleLike (reel_x (Some False) (Some 9007199254740992)))
     = reel_x (Some False) (Some 9007199254740991)"
  by (simp add: toggleLike_def shownLikes_def truthy_bool_def js_add_def dbl_round_def Let_def
        bit_length.simps)

subsection \<open>Pagination\<close>

text \<open>
  C3. A further page is asked for by \<^verbatim>\<open>loadMore(false)\<close>, whose one call is in the
  scroll handler, under the test of \<open>hasMore\<close> and \<open>loading\<close>. While \<open>loading\<close> holds
  or \<open>hasMore\<close> does not, every scroll event, and every run of them, is without effect on
  the page state: the items, the cursor and the requests issued stay as they are, and so
  do the two flags.
\<close>

theorem onScroll_guard:
  assumes "loading c \<or> \<not> hasMore c"
  shows "items (scroll_run es c) = items c \<and> cursor (scroll_run es c) = cursor c \<and>
         requests (scroll_run es c) = requests c \<and>
         loading (scroll_run es c) = loading c \<and> hasMore (scroll_run es c) = hasMore c"
proof -
  from scroll_run_guarded [OF assms, of es] obtain i
    where "scroll_run es c = c\<lparr>activeIndex := i\<rparr>" by blast
  then show ?thesis by simp
qed

text \<open>
  The witness: the component during its initial load, when \<open>loading\<close> holds and nothing
  is rendered to scroll over; and the component after an initial load of one reel with no
  cursor, so that \<open>hasMore\<close> is false, where two scroll events near the end of the list
  leave the request of the mount as the only one.
\<close>

theorem onScroll_guard_witness:
  "loading client_mounted \<and>
   requests (scroll_run [([], 0)] client_mounted) = [GetReels None] \<and>
   \<not> hasMore (client_loaded (page_of (Some [reel_x None None]) None None)) \<and>
   items (scroll_run [([0], 0), ([0], 10)] (client_loaded (page_of (Some [reel_x None None]) None None)))
     = [reel_x None None] \<and>
   cursor (scroll_run [([0], 0), ([0], 10)] (client_loaded (page_of (Some [reel_x None None]) None None)))
     = None \<and>
   requests (scroll_run [([0], 0), ([0], 10)] (client_loaded (page_of (Some [reel_x None None]) None None)))
     = [GetReels None]"
proof -
  have h: "loading (client_loaded (page_of (Some [reel_x None None]) None None)) \<or>
           \<not> hasMore (client_loaded (page_of (Some [reel_x None None]) None None))"
    by (simp add: loadMore_resolve_def nextHasMore_def truthy_string_def)
  have l: "loading client_mounted \<or> \<not> hasMore client_mounted"
    by (simp add: loadMore_start_def)
  from onScroll_guard [OF h, of "[([0], 0), ([0], 10)]"] onScroll_guard [OF l, of "[([], 0)]"] h
  show ?thesis
    by (simp add: loadMore_resolve_def loadMore_start_def nextItems_def nextHasMore_def
          truthy_string_def Let_def)
qed

text \<open>
  C4. A load that fails, by a response that is not ok or by an exception, leaves the items
  as they are, stores an error message (the body text, or \<^verbatim>\<open>HTTP <status>\<close> for an
  empty body; the exception's message, or the fixed text without one), sets \<open>hasMore\<close> to
  false, and no run of scroll events after it issues a request: nothing retries. The
  message reaches the view only when no item is loaded, as the error with its retry
  button; with items loaded the view stays the list, with the end-of-list footer.
\<close>

theorem loadMore_failure:
  "items (loadMore_resolve initial (NotOk status t) c) = items c \<and>
   items (loadMore_resolve initial (Threw m) c) = items c \<and>
   err (loadMore_resolve initial (NotOk status t) c)
     = Some (if t \<noteq> [] then t else ''HTTP '' @ show_nat status) \<and>
   err (loadMore_resolve initial (Threw m) c)
     = Some (case m of Some s \<Rightarrow> s | None \<Rightarrow> ''Error cargando reels'') \<and>
   \<not> hasMore (loadMore_resolve initial (NotOk status t) c) \<and>
   \<not> hasMore (loadMore_resolve initial (Threw m) c) \<and>
   requests (scroll_run es (loadMore_resolve initial (NotOk status t) c)) = requests c \<and>
   requests (scroll_run es (loadMore_resolve initial (Threw m) c)) = requests c \<and>
   render (loadMore_resolve initial (NotOk status t) c)
     = (if items c = [] then ErrorView (if t \<noteq> [] then t else ''HTTP '' @ show_nat status)
        else FeedView (items c) False True) \<and>
   render (loadMore_resolve initial (Threw m) c)
     = (if items c \<noteq> [] then FeedView (items c) False True
        else if m = Some [] then FeedView [] False False
        else ErrorView (case m of Some s \<Rightarrow> s | None \<Rightarrow> ''Error cargando reels''))"
proof -
  have a: "loading (loadMore_resolve initial (NotOk status t) c) \<or>
           \<not> hasMore (loadMore_resolve initial (NotOk status t) c)"
    and b: "loading (loadMore_resolve initial (Threw m) c) \<or>
            \<not> hasMore (loadMore_resolve initial (Threw m) c)"
    by (simp_all add: loadMore_resolve_def)
  from scroll_run_guarded [OF a, of es] obtain i
    where "scroll_run es (loadMore_resolve initial (NotOk status t) c)
             = (loadMore_resolve initial (NotOk status t) c)\<lparr>activeIndex := i\<rparr>"
    by blast
  then have ra: "requests (scroll_run es (loadMore_resolve initial (NotOk status t) c))
                   = requests (loadMore_resolve initial (NotOk status t) c)"
    by simp
  from scroll_run_guarded [OF b, of es] obtain k
    where "scroll_run es (loadMore_resolve initial (Threw m) c)
             = (loadMore_resolve initial (Threw m) c)\<lparr>activeIndex := k\<rparr>"
    by blast
  then have rb: "requests (scroll_run es (loadMore_resolve initial (Threw m) c))
                   = requests (loadMore_resolve initial (Threw m) c)"
    by simp
  have va: "render (loadMore_resolve initial (NotOk status t) c)
     = (if items c = [] then ErrorView (if t \<noteq> [] then t else ''HTTP '' @ show_nat status)
        else FeedView (items c) False True)"
    by (simp add: render_def loadMore_resolve_def truthy_string_def)
  have vb: "render (loadMore_resolve initial (Threw m) c)
     = (if items c \<noteq> [] then FeedView (items c) False True
        else if m = Some [] then FeedView [] False False
        else ErrorView (case m of Some s \<Rightarrow> s | None \<Rightarrow> ''Error cargando reels''))"
    by (cases m) (simp_all add: render_def loadMore_resolve_def truthy_string_def)
  from ra rb va vb show ?thesis
    by (simp add: loadMore_resolve_def)
qed

text \<open>
  The witness: an initial load that fails with status 500 and an empty body, and the load
  of a further page that fails by an exception without a message.
\<close>

theorem loadMore_failure_witness:
  "items (loadMore_resolve True (NotOk 500 []) client_mounted) = [] \<and>
   err (loadMore_resolve True (NotOk 500 []) client_mounted) = Some ''HTTP 500'' \<and>
   \<not> hasMore (loadMore_resolve True (NotOk 500 []) client_mounted) \<and>
   requests (scroll_run [([], 0)] (loadMore_resolve True (NotOk 500 []) client_mounted))
     = [GetReels None] \<and>
   render (loadMore_resolve True (NotOk 500 []) client_mounted) = ErrorView ''HTTP 500'' \<and>
   items (loadMore_resolve False (Threw None)
      (onScroll [0] 0 (client_loaded (page_of (Some [reel_named ''a'']) (Some ''abc'') None))))
     = [reel_named ''a''] \<and>
   err (loadMore_resolve False (Threw None)
      (onScroll [0] 0 (client_loaded (page_of (Some [reel_named ''a'']) (Some ''abc'') None))))
     = Some ''Error cargando reels'' \<and>
   requests (scroll_run [([0], 0)] (loadMore_resolve False (Threw None)
      (onScroll [0] 0 (client_loaded (page_of (Some [reel_named ''a'']) (Some ''abc'') None)))))
     = [GetReels None, GetReels (Some ''abc'')]"
  using loadMore_failure [of True 500 "[]" client_mounted None "[([], 0)]"]
    loadMore_failure [of False 500 "[]"
      "onScroll [0] 0 (client_loaded (page_of (Some [reel_named ''a'']) (Some ''abc'') None))"
      None "[([0], 0)]"]
  by (simp add: loadMore_start_def show_nat.simps digit_char_def loadMore_resolve_def onScroll_def
        lessDist_def nextItems_def nextHasMore_def truthy_string_def Let_def)

text \<open>
  The claim as stated fails for the load of a further page: after an initial page of one
  reel, a scroll event asks for the next page and the answer has status 500. The message
  is stored, and the view is the list with the end-of-list footer: no message is shown.
\<close>

theorem loadMore_failure_counterexample:
  "err (loadMore_resolve False (NotOk 500 [])
          (onScroll [0] 0 (client_loaded (page_of (Some [reel_x None None]) (Some ''abc'') None))))
     = Some ''HTTP 500'' \<and>
   render (loadMore_resolve False (NotOk 500 [])
          (onScroll [0] 0 (client_loaded (page_of (Some [reel_x None None]) (Some ''abc'') None))))
     = FeedView [reel_x None None] False True \<and>
   requests (onScroll [0] 0 (client_loaded (page_of (Some [reel_x None None]) (Some ''abc'') None)))
     = [GetReels None, GetReels (Some ''abc'')]"
  by (simp add: render_def loadMore_resolve_def loadMore_start_def onScroll_def lessDist_def
        nextItems_def nextHasMore_def truthy_string_def Let_def show_nat.simps digit_char_def)

subsection \<open>The authentication gate\<close>

text \<open>
  C5. The gate of the like action. An unauthenticated viewer whose session has finished
  resolving is sent to the sign-in path, and nothing else changes: no item, no request.
  In every other case, also while the session is still resolving, the action goes ahead:
  the reel is toggled and the request is issued, with no redirect.
\<close>

theorem onLike_gate:
  "(\<not> authed me \<and> \<not> meLoading me \<longrightarrow>
      onLike_start me reelId c = c\<lparr>pushed := pushed c @ [''/login?next=/reels'']\<rparr>) \<and>
   (authed me \<or> meLoading me \<longrightarrow>
      onLike_start me reelId c =
        c\<lparr>items := toggleItems reelId (items c), requests := requests c @ [PostLike reelId]\<rparr>)"
  by (auto simp: onLike_start_def requireAuth_def)

theorem onLike_gate_witness:
  "onLike_start (me_of False False) ''x'' (client_of [reel_x None (Some 5)] False False)
     = \<lparr>items = [reel_x None (Some 5)], loading = False, cursor = None, hasMore = False, err = None,
        activeIndex = 0, requests = [], pushed = [''/login?next=/reels'']\<rparr> \<and>
   onLike_start (me_of True False) ''x'' (client_of [reel_x None (Some 5)] False False)
     = \<lparr>items = [reel_x (Some True) (Some 6)], loading = False, cursor = None, hasMore = False, err = None,
        activeIndex = 0, requests = [PostLike ''x''], pushed = []\<rparr>"
  using onLike_gate [of "me_of False False" "''x''" "client_of [reel_x None (Some 5)] False False"]
    onLike_gate [of "me_of True False" "''x''" "client_of [reel_x None (Some 5)] False False"]
  by (simp add: toggleItems_def toggleLike_def shownLikes_def truthy_bool_def js_add_def dbl_round_def)

text \<open>
  The claim as stated fails while the session is resolving: for an unauthenticated viewer
  the reel is toggled and the request is issued.
\<close>

theorem onLike_pending_session_counterexample:
  "onLike_start (me_of False True) ''x'' (client_of [reel_x None (Some 5)] False False)
     = \<lparr>items = [reel_x (Some True) (Some 6)], loading = False, cursor = None, hasMore = False, err = None,
        activeIndex = 0, requests = [PostLike ''x''], pushed = []\<rparr>"
  by (simp add: onLike_start_def requireAuth_def toggleItems_def toggleLike_def shownLikes_def
        truthy_bool_def js_add_def dbl_round_def)

subsection \<open>The more-available flag\<close>

text \<open>
  C6. After a successful load of a page with at least one item, \<open>hasMore\<close> is the flag of
  the response when the response has one, and otherwise says whether the next cursor is
  present and not the empty string.
\<close>

theorem hasMore_after_load:
  assumes "nextItems d \<noteq> []"
  shows "hasMore (loadMore_resolve initial (Ok d) c) =
           (case hasMore_data d of
              Some b \<Rightarrow> b
            | None \<Rightarrow> (case nextCursor_data d of None \<Rightarrow> False | Some s \<Rightarrow> s \<noteq> []))"
  using assms
  by (simp add: loadMore_resolve_def nextHasMore_def truthy_string_def split: option.splits)

theorem hasMore_after_load_witness:
  "nextItems (page_of (Some [reel_x None None]) (Some ''abc'') None) \<noteq> [] \<and>
   hasMore (loadMore_resolve False (Ok (page_of (Some [reel_x None None]) (Some ''abc'') None))
      (client_of [] False True)) \<and>
   nextItems (page_of (Some [reel_x None None]) (Some ''abc'') (Some False)) \<noteq> [] \<and>
   \<not> hasMore (loadMore_resolve False (Ok (page_of (Some [reel_x None None]) (Some ''abc'') (Some False)))
      (client_of [] False True))"
  using hasMore_after_load [of "page_of (Some [reel_x None None]) (Some ''abc'') None" False
      "client_of [] False True"]
    hasMore_after_load [of "page_of (Some [reel_x None None]) (Some ''abc'') (Some False)" False
      "client_of [] False True"]
  by (simp add: nextItems_def)

text \<open>
  The claim as stated fails on an empty page whose flag is true, and on a page without a
  flag whose next cursor is the empty string, which is not null: \<open>hasMore\<close> is false
  after both.
\<close>

theorem hasMore_explicit_flag_counterexample:
  "\<not> hasMore (loadMore_resolve False (Ok (page_of (Some []) (Some ''abc'') (Some True)))
        (client_of [reel_x None None] False True)) \<and>
   \<not> hasMore (loadMore_resolve False (Ok (page_of (Some [reel_x None None]) (Some []) None))
        (client_of [reel_x None None] False True))"
  by (simp add: loadMore_resolve_def nextItems_def nextHasMore_def truthy_string_def)

subsection \<open>The active index\<close>




subsection \<open>The lower bound of the count\<close>

text \<open>
  C8. If no reel shows a negative count, then after every run of like events (clicks and
  resolutions of requests, successful or failed, in any order), and after every prefix of
  it, no reel shows a negative count.
\<close>

theorem likesCount_never_negative:
  assumes "\<forall>r \<in> set (items c). 0 \<le> shownLikes r"
  shows "\<forall>n. \<forall>r \<in> set (items (like_run (take n es) c)). 0 \<le> shownLikes r"
  using assms like_run_nonneg by blast

theorem likesCount_never_negative_witness:
  "list_all (\<lambda>r. 0 \<le> shownLikes r) (items (client_of [reel_x (Some True) (Some 0)] False False)) \<and>
   list_all (\<lambda>r. 0 \<le> shownLikes r)
     (items (like_run
        (take 2 [Click (me_of True False) ''x'', Resolved ''x'' LikeThrew, Click (me_of True False) ''x''])
        (client_of [reel_x (Some True) (Some 0)] False False)))"
proof -
  have h: "\<forall>r \<in> set (items (client_of [reel_x (Some True) (Some 0)] False False)). 0 \<le> shownLikes r"
    by (simp add: shownLikes_def)
  from likesCount_never_negative [OF h,
      of "[Click (me_of True False) ''x'', Resolved ''x'' LikeThrew, Click (me_of True False) ''x'']"]
  have "\<forall>r \<in> set (items (like_run
            (take 2 [Click (me_of True False) ''x'', Resolved ''x'' LikeThrew, Click (me_of True False) ''x''])
            (client_of [reel_x (Some True) (Some 0)] False False))). 0 \<le> shownLikes r"
    by blast
  with h show ?thesis
    unfolding list_all_iff by blast
qed

subsection \<open>Teardown\<close>

text \<open>
  C9. The continuation of \<^verbatim>\<open>loadMore\<close> in the paginated client reads no liveness
  variable: whenever the fetch resolves, the page is written into the state. The sibling
  loader, after the cleanup of its effect, leaves its state as it is on the same response.
\<close>

theorem loadMore_resolve_unguarded:
  "loadMore_resolve True (Ok (page_of (Some [reel_x None (Some 3)]) (Some ''abc'') None))
       (client_of [] True True)
     = \<lparr>items = [reel_x None (Some 3)], loading = False, cursor = Some ''abc'', hasMore = True,
        err = None, activeIndex = 0, requests = [], pushed = []\<rparr> \<and>
   load_resolve ''Error cargando reels'' (Got [reel_x None (Some 3)])
       (cleanup (load_start \<lparr>loaded = [], busy = True, failure = None, mounted = False\<rparr>))
     = \<lparr>loaded = [], busy = True, failure = None, mounted = False\<rparr>"
  by (simp add: loadMore_resolve_def nextItems_def nextHasMore_def truthy_string_def
        load_resolve_def cleanup_def load_start_def)

subsection \<open>The empty page\<close>

text \<open>
  C10. After a successful load, initial or not, of a page with no items, \<open>hasMore\<close> is
  false whatever flag and cursor the response carries. It stays false, and no page is asked
  for, through every run of scroll events, like events, failed loads and loads of empty
  pages, that is, until a load ends on a page with items or the viewer retries.
\<close>

theorem empty_page_stops_pagination:
  assumes "nextItems d = []" and "list_all (\<lambda>e. \<not> restarts e) es"
  shows "\<not> hasMore (loadMore_resolve initial (Ok d) c) \<and>
         \<not> hasMore (run es (loadMore_resolve initial (Ok d) c)) \<and>
         filter is_GetReels (requests (run es (loadMore_resolve initial (Ok d) c)))
           = filter is_GetReels (requests c)"
proof -
  have a: "\<not> hasMore (loadMore_resolve initial (Ok d) c)"
    using assms(1) by (simp add: loadMore_resolve_def)
  have b: "requests (loadMore_resolve initial (Ok d) c) = requests c"
    by (simp add: loadMore_resolve_def)
  from run_quiet [OF a assms(2)] a b show ?thesis by simp
qed

theorem empty_page_stops_pagination_witness:
  "nextItems (page_of (Some []) (Some ''abc'') (Some True)) = [] \<and>
   list_all (\<lambda>e. \<not> restarts e)
     [Scroll [0] 0, Like (Click (me_of True False) ''x''), Loaded False (NotOk 500 [])] \<and>
   \<not> hasMore (loadMore_resolve False (Ok (page_of (Some []) (Some ''abc'') (Some True)))
        (onScroll [0] 0 (client_loaded (page_of (Some [reel_x None None]) (Some ''abc'') None)))) \<and>
   filter is_GetReels (requests
      (run [Scroll [0] 0, Like (Click (me_of True False) ''x''), Loaded False (NotOk 500 [])]
        (loadMore_resolve False (Ok (page_of (Some []) (Some ''abc'') (Some True)))
          (onScroll [0] 0 (client_loaded (page_of (Some [reel_x None None]) (Some ''abc'') None))))))
     = [GetReels None, GetReels (Some ''abc'')]"
proof -
  have d: "nextItems (page_of (Some []) (Some ''abc'') (Some True)) = []"
    by (simp add: nextItems_def)
  have q: "list_all (\<lambda>e. \<not> restarts e)
     [Scroll [0] 0, Like (Click (me_of True False) ''x''), Loaded False (NotOk 500 [])]"
    by simp
  have r: "requests (onScroll [0] 0 (client_loaded (page_of (Some [reel_x None None]) (Some ''abc'') None)))
     = [GetReels None, GetReels (Some ''abc'')]"
    by (simp add: loadMore_resolve_def loadMore_start_def onScroll_def lessDist_def
          nextItems_def nextHasMore_def truthy_string_def Let_def)
  from empty_page_stops_pagination [OF d q, of False
      "onScroll [0] 0 (client_loaded (page_of (Some [reel_x None None]) (Some ''abc'') None))"]
    d q r show ?thesis
    by simp
qed

text \<open>
  The claim as stated, that pagination stops for good, fails when two loads overlap. After
  an initial page of one reel with cursor \<^verbatim>\<open>abc\<close>, two scroll events each ask for the next
  page, as \<open>loading\<close> is not raised by the first. The first answer is an empty page, and
  \<open>hasMore\<close> is false; the second answer is a page of one reel with cursor \<^verbatim>\<open>def\<close>, and
  \<open>hasMore\<close> is true again; the next scroll event asks for the page after \<^verbatim>\<open>def\<close>.
\<close>

theorem empty_page_overlap_counterexample:
  "\<not> hasMore (run [Scroll [0] 0, Scroll [0] 0,
                   Loaded False (Ok (page_of (Some []) (Some ''abc'') (Some True)))]
             (client_loaded (page_of (Some [reel_x None None]) (Some ''abc'') None))) \<and>
   hasMore (run [Scroll [0] 0, Scroll [0] 0,
                 Loaded False (Ok (page_of (Some []) (Some ''abc'') (Some True))),
                 Loaded False (Ok (page_of (Some [reel_named ''y'']) (Some ''def'') None))]
             (client_loaded (page_of (Some [reel_x None None]) (Some ''abc'') None))) \<and>
   requests (run [Scroll [0] 0, Scroll [0] 0,
                  Loaded False (Ok (page_of (Some []) (Some ''abc'') (Some True))),
                  Loaded False (Ok (page_of (Some [reel_named ''y'']) (Some ''def'') None)),
                  Scroll [0, 700] 700]
             (client_loaded (page_of (Some [reel_x None None]) (Some ''abc'') None)))
     = [GetReels None, GetReels (Some ''abc''), GetReels (Some ''abc''), GetReels (Some ''def'')]"
  by (simp add: loadMore_resolve_def loadMore_start_def onScroll_def lessDist_def
        nextItems_def nextHasMore_def truthy_string_def Let_def)

end
